theory Spec2Isabelle
  imports Main "HOL-Library.Sublist"
begin

section \<open>The iOS build driver \<open>build_ios_lib.py\<close>\<close>

text \<open>
  The script drives external tools (cmake, libtool, lipo) and the file system. The model
  is a state-and-exception monad: every function of the script takes the state of the
  process and returns either the exception it raises or its value, with the new state.
  What the operating system and the external tools answer is a parameter (a record of
  type \<open>os\<close>), so every theorem holds whatever the tools do.
\<close>

subsection \<open>Paths (\<open>posixpath\<close>)\<close>

type_synonym path = string

text \<open>\<open>os.path.join(a, b)\<close>: an absolute \<open>b\<close> replaces \<open>a\<close>; a separator is added
  unless \<open>a\<close> is empty or ends with one.\<close>

definition join2 :: "path \<Rightarrow> path \<Rightarrow> path" where
  "join2 a b =
     (if b \<noteq> [] \<and> hd b = CHR ''/'' then b
      else if a = [] \<or> last a = CHR ''/'' then a @ b
      else a @ ''/'' @ b)"

definition path_join :: "path \<Rightarrow> path list \<Rightarrow> path" where
  "path_join a ps = foldl join2 a ps"

definition rstrip_sep :: "path \<Rightarrow> path" where
  "rstrip_sep h = rev (dropWhile (\<lambda>c. c = CHR ''/'') (rev h))"

text \<open>\<open>os.path.split(p)\<close>: the tail is what follows the last separator; trailing
  separators are stripped from the head unless it consists of separators only.\<close>

definition path_split :: "path \<Rightarrow> path \<times> path" where
  "path_split p =
     (let tail = rev (takeWhile (\<lambda>c. c \<noteq> CHR ''/'') (rev p));
          head = take (length p - length tail) p
      in (if head \<noteq> [] \<and> \<not> list_all (\<lambda>c. c = CHR ''/'') head then rstrip_sep head else head,
          tail))"

text \<open>\<open>sep.join(xs)\<close> on strings.\<close>

fun str_join :: "string \<Rightarrow> string list \<Rightarrow> string" where
  "str_join sep [] = []"
| "str_join sep [x] = x"
| "str_join sep (x # y # ys) = x @ sep @ str_join sep (y # ys)"

subsection \<open>Exceptions, actions, state\<close>

datatype oserror = FileNotFound | FileExists | NotADirectory | PermissionDenied

datatype exn =
    CalledProcessError int "string list"  \<comment> \<open>raised by \<open>check_call\<close>: return code, command\<close>
  | ChildReturned int                     \<comment> \<open>\<open>Exception("Child returned:", retcode)\<close>\<close>
  | NameError string                      \<comment> \<open>a name that is bound in no scope\<close>
  | OSError oserror path                  \<comment> \<open>\<open>FileNotFoundError\<close> and the other \<open>OSError\<close>s\<close>
  | TypeError                             \<comment> \<open>a path argument that is no string\<close>
  | IndexError                            \<comment> \<open>the first element of an empty list\<close>
  | SystemExit int                        \<comment> \<open>\<open>sys.exit(n)\<close>\<close>

text \<open>\<open>except Exception\<close> catches every exception of the model but \<open>SystemExit\<close>, which
  derives from \<open>BaseException\<close>.\<close>

fun is_Exception :: "exn \<Rightarrow> bool" where
  "is_Exception (SystemExit n) = False"
| "is_Exception e = True"

text \<open>The calls the script makes to the operating system, in order.\<close>

datatype action =
    Makedirs path                       \<comment> \<open>\<open>os.makedirs(p, exist_ok=True)\<close>\<close>
  | SetEnv string string                \<comment> \<open>\<open>os.environ[k] = v\<close>\<close>
  | Glob path                           \<comment> \<open>\<open>glob.glob(pattern)\<close>\<close>
  | Exec "string list" "path option"    \<comment> \<open>\<open>check_call(cmd, cwd=cwd)\<close>\<close>
  | Copytree path path                  \<comment> \<open>\<open>shutil.copytree(src, dst, dirs_exist_ok=True)\<close>\<close>

text \<open>What is written to the diagnostic stream. The text of a formatted list or exception
  is kept as structure.\<close>

datatype err_item =
    Text string                             \<comment> \<open>a literal text\<close>
  | Executing "string list" "path option"   \<comment> \<open>\<open>"Executing: %s in %s" % (cmd, cwd)\<close>\<close>
  | ErrorMsg exn                            \<comment> \<open>\<open>"ERROR: %s" % e\<close>\<close>
  | Traceback exn                           \<comment> \<open>the stack trace of an exception\<close>

record 'fs state =
  fs :: 'fs                                 \<comment> \<open>the file system\<close>
  environ :: "string \<Rightarrow> string option"      \<comment> \<open>\<open>os.environ\<close>\<close>
  stdout :: "string list"                   \<comment> \<open>one entry for each \<open>print\<close>\<close>
  stderr :: "err_item list"
  trace :: "action list"                    \<comment> \<open>the calls made so far\<close>

text \<open>What becomes of a command: it runs and exits with a status, or it cannot be
  started (the program is not found, the working directory does not exist) and the
  operating system gives an error with the path it is about.\<close>

datatype outcome = Exited int | NotStarted oserror path

text \<open>The operating system and the external tools. \<open>listdir\<close> is \<open>None\<close> where the path
  cannot be listed (it does not exist or is no directory); \<open>expand_dirs\<close> gives the
  directories that match a directory pattern with wildcard characters; \<open>makedirs\<close> and
  \<open>copytree\<close> give the error they raise, if any, with the path the error names (for
  \<open>makedirs\<close> the ancestor that could not be created), and the file system they leave;
  \<open>run\<close> gives the outcome of a command and the file system it leaves. Strings are those
  a process can be given: the command line, the environment and file names carry no NUL
  character, so no call rejects its arguments for one.\<close>

record 'fs os =
  abspath :: "path \<Rightarrow> path"
  script_dir :: path                        \<comment> \<open>\<open>os.path.abspath(os.path.dirname(__file__))\<close>\<close>
  listdir :: "'fs \<Rightarrow> path \<Rightarrow> string list option"
  expand_dirs :: "'fs \<Rightarrow> path \<Rightarrow> path list"
  makedirs :: "'fs \<Rightarrow> path \<Rightarrow> (oserror \<times> path) option \<times> 'fs"
  copytree :: "'fs \<Rightarrow> path \<Rightarrow> path \<Rightarrow> (oserror \<times> path) option \<times> 'fs"
  run :: "'fs \<Rightarrow> (string \<Rightarrow> string option) \<Rightarrow> string list \<Rightarrow> path option \<Rightarrow> outcome \<times> 'fs"

type_synonym ('fs, 'a) prog = "'fs state \<Rightarrow> (exn + 'a) \<times> 'fs state"

definition ret :: "'a \<Rightarrow> ('fs, 'a) prog" where
  "ret x s = (Inr x, s)"

definition raise :: "exn \<Rightarrow> ('fs, 'a) prog" where
  "raise e s = (Inl e, s)"

definition bind :: "('fs, 'a) prog \<Rightarrow> ('a \<Rightarrow> ('fs, 'b) prog) \<Rightarrow> ('fs, 'b) prog" where
  "bind m f s = (case m s of (Inl e, s') \<Rightarrow> (Inl e, s') | (Inr x, s') \<Rightarrow> f x s')"

text \<open>A \<open>for\<close> loop over a list: the first exception ends it.\<close>

fun for_each :: "'a list \<Rightarrow> ('a \<Rightarrow> ('fs, unit) prog) \<Rightarrow> ('fs, unit) prog" where
  "for_each [] body = ret ()"
| "for_each (x # xs) body = bind (body x) (\<lambda>_. for_each xs body)"

subsection \<open>Library calls\<close>

definition print_out :: "string \<Rightarrow> ('fs, unit) prog" where
  "print_out l s = (Inr (), s\<lparr>stdout := stdout s @ [l]\<rparr>)"

definition print_err :: "err_item \<Rightarrow> ('fs, unit) prog" where
  "print_err l s = (Inr (), s\<lparr>stderr := stderr s @ [l]\<rparr>)"

definition os_makedirs :: "'fs os \<Rightarrow> path \<Rightarrow> ('fs, unit) prog" where
  "os_makedirs os p s =
    (case makedirs os (fs s) p of
       (None, f) \<Rightarrow> (Inr (), s\<lparr>fs := f, trace := trace s @ [Makedirs p]\<rparr>)
     | (Some (e, q), f) \<Rightarrow> (Inl (OSError e q), s\<lparr>fs := f, trace := trace s @ [Makedirs p]\<rparr>))"

definition shutil_copytree :: "'fs os \<Rightarrow> path \<Rightarrow> path \<Rightarrow> ('fs, unit) prog" where
  "shutil_copytree os src dst s =
    (case copytree os (fs s) src dst of
       (None, f) \<Rightarrow> (Inr (), s\<lparr>fs := f, trace := trace s @ [Copytree src dst]\<rparr>)
     | (Some (e, q), f) \<Rightarrow>
         (Inl (OSError e q), s\<lparr>fs := f, trace := trace s @ [Copytree src dst]\<rparr>))"

definition set_environ :: "string \<Rightarrow> string \<Rightarrow> ('fs, unit) prog" where
  "set_environ k v s =
     (Inr (), s\<lparr>environ := (environ s)(k \<mapsto> v), trace := trace s @ [SetEnv k v]\<rparr>)"

text \<open>\<open>subprocess.check_call\<close>: the program is the first element of the command, so an
  empty command raises \<open>IndexError\<close>. Otherwise the command is started in the current
  environment; when it cannot be started the error of the operating system is raised;
  when it exits, a non-zero return code raises \<open>CalledProcessError\<close> and the call returns 0
  otherwise.\<close>

definition check_call :: "'fs os \<Rightarrow> string list \<Rightarrow> path option \<Rightarrow> ('fs, int) prog" where
  "check_call os cmd cwd s =
    (if cmd = [] then (Inl IndexError, s\<lparr>trace := trace s @ [Exec cmd cwd]\<rparr>)
     else
       let (result, f) = run os (fs s) (environ s) cmd cwd;
           s' = s\<lparr>fs := f, trace := trace s @ [Exec cmd cwd]\<rparr>
       in case result of
            NotStarted e q \<Rightarrow> (Inl (OSError e q), s')
          | Exited retcode \<Rightarrow>
              if retcode \<noteq> 0 then (Inl (CalledProcessError retcode cmd), s') else (Inr 0, s'))"

text \<open>\<open>glob.glob(os.path.join(directory_path, "*.a"))\<close>, the only pattern of the script.
  The pattern is split into directory and base name. A directory part with a wildcard
  character is itself expanded as a pattern; otherwise it is taken as it is. In each
  directory the names that do not start with a dot and end with \<open>.a\<close> match; a
  directory that cannot be listed gives no name and no error. An empty directory part
  stands for the current directory.\<close>

definition has_magic :: "string \<Rightarrow> bool" where
  "has_magic s = list_ex (\<lambda>c. c = CHR ''*'' \<or> c = CHR ''?'' \<or> c = CHR ''['') s"

definition ishidden :: "string \<Rightarrow> bool" where
  "ishidden name = (case name of [] \<Rightarrow> False | c # _ \<Rightarrow> c = CHR ''.'')"

definition endswith :: "string \<Rightarrow> string \<Rightarrow> bool" where
  "endswith s suf = (length suf \<le> length s \<and> drop (length s - length suf) s = suf)"

definition matches_star_a :: "string \<Rightarrow> bool" where
  "matches_star_a name = (\<not> ishidden name \<and> endswith name ''.a'')"

definition glob1_star_a :: "'fs os \<Rightarrow> 'fs \<Rightarrow> path \<Rightarrow> string list" where
  "glob1_star_a os f dirname =
     (case listdir os f dirname of None \<Rightarrow> [] | Some names \<Rightarrow> filter matches_star_a names)"

definition glob_static_libs :: "'fs os \<Rightarrow> path \<Rightarrow> ('fs, path list) prog" where
  "glob_static_libs os directory_path s =
    (let pathname = join2 directory_path ''*.a'';
         (dirname, basename) = path_split pathname;
         dirs = (if dirname \<noteq> pathname \<and> has_magic dirname
                 then expand_dirs os (fs s) dirname else [dirname]);
         found = concat (map (\<lambda>d. map (join2 d) (glob1_star_a os (fs s) d)) dirs)
     in (Inr found, s\<lparr>trace := trace s @ [Glob pathname]\<rparr>))"

text \<open>The directory part of the pattern \<open>os.path.join(directory_path, "*.a")\<close>.\<close>

definition glob_dirname :: "path \<Rightarrow> path" where
  "glob_dirname d = fst (path_split (join2 d ''*.a''))"

subsection \<open>The script\<close>

definition IPHONEOS_DEPLOYMENT_TARGET :: string where
  "IPHONEOS_DEPLOYMENT_TARGET = ''13.0''"

definition JANSSON_EXTRA_CMAKE_FLAGS :: "string list" where
  "JANSSON_EXTRA_CMAKE_FLAGS =
     [''-DJANSSON_WITHOUT_TESTS=ON'', ''-DJANSSON_EXAMPLES=OFF'', ''-DJANSSON_BUILD_DOCS=OFF'']"

definition execute :: "'fs os \<Rightarrow> string list \<Rightarrow> path option \<Rightarrow> ('fs, unit) prog" where
  "execute os cmd cwd =
     bind (print_err (Executing cmd cwd)) (\<lambda>_.
     bind (print_out (''Executing: '' @ str_join '' '' cmd)) (\<lambda>_.
     bind (check_call os cmd cwd) (\<lambda>retcode.
       if retcode \<noteq> 0 then raise (ChildReturned retcode) else ret ())))"

record Builder =
  configuration :: string
  bitcode_enabled :: bool
  deployment_target :: string

definition get_path_relative_to_script :: "'fs os \<Rightarrow> path list \<Rightarrow> path" where
  "get_path_relative_to_script os path_components = path_join (script_dir os) path_components"

definition get_toolchain :: "'fs os \<Rightarrow> path" where
  "get_toolchain os = get_path_relative_to_script os [''ios-cmake'', ''ios.toolchain.cmake'']"

definition get_platforms :: "string list" where
  "get_platforms = [''SIMULATOR64'', ''OS64'']"

definition platform_install_dir :: "path \<Rightarrow> string \<Rightarrow> path" where
  "platform_install_dir out_dir platform = path_join out_dir [platform]"

definition platform_lib_file :: "string \<Rightarrow> string \<Rightarrow> string" where
  "platform_lib_file lib_name platform = lib_name @ ''_'' @ platform @ ''.a''"

definition get_cmake_xcode_generate_command ::
  "Builder \<Rightarrow> 'fs os \<Rightarrow> string \<Rightarrow> path \<Rightarrow> path \<Rightarrow> string list \<Rightarrow> string list" where
  "get_cmake_xcode_generate_command b os platform install_dir root_dir extra_flags =
     [''cmake'',
      root_dir,
      ''-GXcode'',
      ''-DCMAKE_TOOLCHAIN_FILE='' @ get_toolchain os,
      ''-DPLATFORM='' @ platform,
      ''-DCMAKE_XCODE_ATTRIBUTE_CODE_SIGN_IDENTITY='' @ [CHR 0x27, CHR 0x27],
      ''-DCMAKE_XCODE_ATTRIBUTE_DEVELOPMENT_TEAM='' @ [CHR 0x27, CHR 0x27],
      ''-DBUILD_SHARED_LIBS=OFF'',
      ''-DDEPLOYMENT_TARGET='' @ deployment_target b,
      ''-DENABLE_BITCODE='' @ (if bitcode_enabled b then ''ON'' else ''OFF''),
      ''-DCMAKE_INSTALL_PREFIX='' @ install_dir]
     @ extra_flags"

definition get_cmake_build_command :: "Builder \<Rightarrow> string list" where
  "get_cmake_build_command b =
     [''cmake'', ''--build'', ''.'', ''--clean-first'', ''--config'', configuration b,
      ''--target'', ''install'']"

definition build_platform ::
  "Builder \<Rightarrow> 'fs os \<Rightarrow> string \<Rightarrow> path \<Rightarrow> path \<Rightarrow> path \<Rightarrow> string list \<Rightarrow> ('fs, unit) prog" where
  "build_platform b os platform build_dir install_dir root_dir extra_cmake_flags =
     bind (set_environ ''PKG_CONFIG_PATH'' (path_join install_dir [''lib'', ''pkgconfig''])) (\<lambda>_.
     bind (execute os
             (get_cmake_xcode_generate_command b os platform install_dir root_dir
                extra_cmake_flags)
             (Some build_dir)) (\<lambda>_.
     execute os (get_cmake_build_command b) (Some build_dir)))"

text \<open>\<open>Builder._build\<close>.\<close>

definition priv_build ::
  "Builder \<Rightarrow> 'fs os \<Rightarrow> path \<Rightarrow> path \<Rightarrow> string \<Rightarrow> string list \<Rightarrow> ('fs, unit) prog" where
  "priv_build b os out_dir0 root_dir0 lib_name extra_cmake_flags =
     (let out_dir = abspath os out_dir0;
          root_dir = get_path_relative_to_script os [root_dir0]
      in bind (os_makedirs os out_dir) (\<lambda>_.
         let build_path = path_join out_dir [lib_name, ''build'']
         in for_each get_platforms (\<lambda>platform.
              let platform_build_dir = path_join build_path [platform]
              in bind (os_makedirs os platform_build_dir) (\<lambda>_.
                 bind (print_out (''Creating directory '' @ platform_build_dir)) (\<lambda>_.
                 let platform_install_dir = path_join out_dir [platform]
                 in build_platform b os platform platform_build_dir platform_install_dir
                      root_dir extra_cmake_flags)))))"

definition banner :: "exn \<Rightarrow> err_item list" where
  "banner e =
     [Text (replicate 60 CHR ''=''), ErrorMsg e, Text (replicate 60 CHR ''=''), Traceback e]"

text \<open>\<open>Builder.build\<close>; \<open>None\<close> for \<open>extra_cmake_flags\<close> is the default of the source.\<close>

definition build ::
  "Builder \<Rightarrow> 'fs os \<Rightarrow> path \<Rightarrow> path \<Rightarrow> string \<Rightarrow> string list option \<Rightarrow> ('fs, unit) prog" where
  "build b os out_dir root_dir lib_name extra_cmake_flags0 s =
    (let extra_cmake_flags = (case extra_cmake_flags0 of None \<Rightarrow> [] | Some fl \<Rightarrow> fl)
     in case priv_build b os out_dir root_dir lib_name extra_cmake_flags s of
          (Inr u, s') \<Rightarrow> (Inr u, s')
        | (Inl e, s') \<Rightarrow>
            if is_Exception e
            then (Inl (SystemExit 1), s'\<lparr>stderr := stderr s' @ banner e\<rparr>)
            else (Inl e, s'))"

definition merge_libs_in_directory :: "'fs os \<Rightarrow> path \<Rightarrow> path \<Rightarrow> ('fs, unit) prog" where
  "merge_libs_in_directory os directory_path out_lib_file_path =
     bind (print_out (''Merging libraries in path '' @ directory_path)) (\<lambda>_.
     bind (glob_static_libs os directory_path) (\<lambda>libs.
     bind (print_err (Text (''Merging libraries:'' @ [CHR 0x0A, CHR 0x09]
                              @ str_join [CHR 0x0A, CHR 0x09] libs))) (\<lambda>_.
     execute os ([''libtool'', ''-static'', ''-o'', out_lib_file_path] @ libs) None)))"

definition create_universal_static_lib :: "'fs os \<Rightarrow> path \<Rightarrow> path \<Rightarrow> ('fs, unit) prog" where
  "create_universal_static_lib os directory_path out_lib_file_path =
     bind (glob_static_libs os directory_path) (\<lambda>libs.
     let lipocmd = [''lipo'', ''-create''];
         lipocmd = lipocmd @ libs;
         lipocmd = lipocmd @ [''-o'', out_lib_file_path]
     in bind (print_err (Text (''Creating universal library from:'' @ [CHR 0x0A, CHR 0x09]
                                 @ str_join [CHR 0x0A, CHR 0x09] libs))) (\<lambda>_.
        execute os lipocmd None))"

text \<open>Reading a variable: the local variables of the function first, then the names
  bound at module level (no built-in name is involved in what follows). A name bound in
  neither raises \<open>NameError\<close>. A value is a string or some other object (a module, a
  function, a class, a list); only a string is a path.\<close>

datatype pyval = Str string | Obj

definition module_scope :: "(string \<times> pyval) list" where
  "module_scope =
     [(''glob'', Obj), (''re'', Obj), (''os'', Obj), (''shutil'', Obj), (''string'', Obj),
      (''sys'', Obj), (''argparse'', Obj), (''traceback'', Obj), (''multiprocessing'', Obj),
      (''check_call'', Obj), (''check_output'', Obj), (''CalledProcessError'', Obj),
      (''IPHONEOS_DEPLOYMENT_TARGET'', Str IPHONEOS_DEPLOYMENT_TARGET),
      (''JANSSON_EXTRA_CMAKE_FLAGS'', Obj), (''execute'', Obj), (''Builder'', Obj),
      (''parser'', Obj), (''args'', Obj), (''b'', Obj)]"

definition load_name :: "(string \<times> pyval) list \<Rightarrow> string \<Rightarrow> ('fs, pyval) prog" where
  "load_name locals name =
     (case map_of (locals @ module_scope) name of
        Some v \<Rightarrow> ret v
      | None \<Rightarrow> raise (NameError name))"

definition as_path :: "pyval \<Rightarrow> ('fs, path) prog" where
  "as_path v = (case v of Str p \<Rightarrow> ret p | Obj \<Rightarrow> raise TypeError)"

text \<open>\<open>Builder.merge_libs\<close>. The variables of the loop keep the values of its last round.\<close>

definition merge_libs :: "Builder \<Rightarrow> 'fs os \<Rightarrow> path \<Rightarrow> string \<Rightarrow> ('fs, unit) prog" where
  "merge_libs b os out_dir0 lib_name =
     (let out_dir = abspath os out_dir0;
          platform_libs_path = path_join out_dir [''intermediate'']
      in bind (os_makedirs os platform_libs_path) (\<lambda>_.
         let platforms = get_platforms
         in bind (for_each platforms (\<lambda>platform.
              let platform_install_dir = platform_install_dir out_dir platform;
                  platform_merged_lib_file =
                    path_join platform_libs_path [platform_lib_file lib_name platform];
                  platform_lib_dir = path_join platform_install_dir [''lib'']
              in merge_libs_in_directory os platform_lib_dir platform_merged_lib_file)) (\<lambda>_.
         let framework_path = path_join out_dir [lib_name @ ''.framework''];
             framework_include_path = path_join framework_path [''include''];
             platform = last platforms;
             locals =
               [(''self'', Obj), (''out_dir'', Str out_dir), (''lib_name'', Str lib_name),
                (''platform_libs_path'', Str platform_libs_path), (''platforms'', Obj),
                (''platform'', Str platform),
                (''platform_install_dir'', Str (platform_install_dir out_dir platform)),
                (''platform_merged_lib_file'',
                   Str (path_join platform_libs_path [platform_lib_file lib_name platform])),
                (''platform_lib_dir'',
                   Str (path_join (platform_install_dir out_dir platform) [''lib''])),
                (''framework_path'', Str framework_path),
                (''framework_include_path'', Str framework_include_path)]
         in bind (load_name locals ''final_lib_path'') (\<lambda>final_lib_path.
            bind (as_path final_lib_path) (\<lambda>final_lib_path.
            bind (os_makedirs os final_lib_path) (\<lambda>_.
            bind (load_name locals ''final_include_path'') (\<lambda>final_include_path.
            bind (as_path final_include_path) (\<lambda>final_include_path.
            bind (os_makedirs os final_include_path) (\<lambda>_.
            bind (create_universal_static_lib os platform_libs_path
                    (path_join framework_path [lib_name])) (\<lambda>_.
            let platform_include_dir =
                  path_join (platform_install_dir out_dir (platforms ! 0)) [''include'']
            in shutil_copytree os platform_include_dir framework_include_path))))))))))"

text \<open>The parsed command line, and the body of the \<open>__main__\<close> block after parsing.\<close>

record args =
  arg_out_dir :: path
  arg_configuration :: string
  arg_bitcode_enabled :: bool
  arg_deployment_target :: string

definition main :: "'fs os \<Rightarrow> args \<Rightarrow> ('fs, unit) prog" where
  "main os a =
     (let b = \<lparr>configuration = arg_configuration a, bitcode_enabled = arg_bitcode_enabled a,
               deployment_target = arg_deployment_target a\<rparr>
      in bind (build b os (arg_out_dir a) ''jansson'' ''jansson''
                 (Some JANSSON_EXTRA_CMAKE_FLAGS)) (\<lambda>_.
         bind (build b os (arg_out_dir a) (path_join ''lang'' [''c'']) ''avro'' None) (\<lambda>_.
         merge_libs b os (arg_out_dir a) ''avro'')))"

text \<open>The interpreter around the script: \<open>sys.exit(n)\<close> ends the process with status
  \<open>n\<close>; any other exception that reaches the top is printed with its stack trace on the
  diagnostic stream and the status is 1; a script that ends normally has status 0.\<close>

definition run_script :: "'fs os \<Rightarrow> args \<Rightarrow> 'fs state \<Rightarrow> int \<times> 'fs state" where
  "run_script os a s =
     (case main os a s of
        (Inr u, s') \<Rightarrow> (0, s')
      | (Inl (SystemExit n), s') \<Rightarrow> (n, s')
      | (Inl e, s') \<Rightarrow> (1, s'\<lparr>stderr := stderr s' @ [Traceback e]\<rparr>))"

subsection \<open>Sample worlds\<close>

text \<open>Worlds on which the script is run in the examples below. The file system is
  trivial, the output directory is given as an absolute path, and no directory can be
  listed, unless said otherwise.\<close>

definition s0 :: "unit state" where
  "s0 = \<lparr>fs = (), environ = Map.empty, stdout = [], stderr = [], trace = []\<rparr>"

definition b0 :: Builder where
  "b0 = \<lparr>configuration = ''Release'', bitcode_enabled = False, deployment_target = ''13.0''\<rparr>"

definition a0 :: args where
  "a0 = \<lparr>arg_out_dir = ''/out'', arg_configuration = ''Release'',
          arg_bitcode_enabled = False, arg_deployment_target = ''13.0''\<rparr>"

text \<open>Every command exits with status 0 and every directory can be created.\<close>

definition os_ok :: "unit os" where
  "os_ok = \<lparr>abspath = (\<lambda>p. p), script_dir = ''/repo'', listdir = (\<lambda>f p. None),
     expand_dirs = (\<lambda>f p. []), makedirs = (\<lambda>f p. (None, f)),
     copytree = (\<lambda>f src dst. (None, f)), run = (\<lambda>f env cmd cwd. (Exited 0, f))\<rparr>"

text \<open>As \<open>os_ok\<close>, but \<open>libtool\<close> exits with status 1.\<close>

definition os_libtool_fails :: "unit os" where
  "os_libtool_fails =
     os_ok\<lparr>run := (\<lambda>f env cmd cwd. (if hd cmd = ''libtool'' then Exited 1 else Exited 0, f))\<rparr>"

text \<open>As \<open>os_ok\<close>, but every command exits with status 1.\<close>

definition os_all_fail :: "unit os" where
  "os_all_fail = os_ok\<lparr>run := (\<lambda>f env cmd cwd. (Exited 1, f))\<rparr>"

text \<open>As \<open>os_ok\<close>, on a machine without \<open>libtool\<close>: the command cannot be started.\<close>

definition os_no_libtool :: "unit os" where
  "os_no_libtool =
     os_ok\<lparr>run := (\<lambda>f env cmd cwd.
       (if hd cmd = ''libtool'' then NotStarted FileNotFound ''libtool'' else Exited 0, f))\<rparr>"

text \<open>As \<open>os_ok\<close>, but nothing can be created below the read-only directory \<open>/out\<close>.\<close>

definition os_readonly :: "unit os" where
  "os_readonly = os_ok\<lparr>makedirs := (\<lambda>f p. (Some (PermissionDenied, ''/out''), f))\<rparr>"

text \<open>As \<open>os_ok\<close>, with static libraries installed for the simulator and two merged
  archives in the intermediate directory.\<close>

definition os_libs :: "unit os" where
  "os_libs = os_ok\<lparr>listdir := (\<lambda>f p.
      if p = ''/out/SIMULATOR64/lib''
      then Some [''libavro.a'', ''README'', ''.hidden.a'', ''libjansson.a'']
      else if p = ''/out/intermediate'' then Some [''avro_SIMULATOR64.a'', ''avro_OS64.a'']
      else None)\<rparr>"

text \<open>The output directory is \<open>/o[1]\<close>. As a pattern, \<open>o[1]\<close> matches the name \<open>o1\<close> only,
  and there is no directory \<open>/o1\<close>: the directory patterns below \<open>/o[1]\<close> match nothing
  (\<open>expand_dirs\<close> is empty, as in \<open>os_ok\<close>), though the directories exist and hold
  libraries.\<close>

definition os_magic :: "unit os" where
  "os_magic = os_ok\<lparr>listdir := (\<lambda>f p.
      if p = ''/o[1]/SIMULATOR64/lib'' then Some [''libavro.a'']
      else if p = ''/o[1]/intermediate'' then Some [''avro_SIMULATOR64.a'', ''avro_OS64.a'']
      else None)\<rparr>"

text \<open>An initial state with two environment variables set.\<close>

definition s1 :: "unit state" where
  "s1 = s0\<lparr>environ := [''HOME'' \<mapsto> ''/root'', ''PKG_CONFIG_PATH'' \<mapsto> ''/usr/lib/pkgconfig'']\<rparr>"

subsection \<open>Vocabulary of the properties\<close>

text \<open>The exception raised for a command that did not exit with status 0.\<close>

fun failure :: "outcome \<Rightarrow> string list \<Rightarrow> exn" where
  "failure (Exited retcode) cmd = CalledProcessError retcode cmd"
| "failure (NotStarted e q) cmd = OSError e q"







text \<open>The calls of the merge step: it creates the intermediate directory, globs the
  \<open>lib\<close> directory of a platform and runs \<open>libtool\<close>; it sets no variable and copies no
  tree.\<close>

fun merge_action :: "path \<Rightarrow> action \<Rightarrow> bool" where
  "merge_action out_dir (Makedirs p) = (p = path_join out_dir [''intermediate''])"
| "merge_action out_dir (Glob pat) =
     (\<exists>platform\<in>set get_platforms.
        pat = join2 (path_join (platform_install_dir out_dir platform) [''lib'']) ''*.a'')"
| "merge_action out_dir (Exec cmd cwd) = (cwd = None \<and> take 3 cmd = [''libtool'', ''-static'', ''-o''])"
| "merge_action out_dir (SetEnv k v) = False"
| "merge_action out_dir (Copytree src dst) = False"



text \<open>Performing a call in a file system and an environment: the error it raises, if any,
  and the file system and environment it leaves.\<close>

fun perform ::
  "'fs os \<Rightarrow> action \<Rightarrow> 'fs \<Rightarrow> (string \<Rightarrow> string option)
     \<Rightarrow> exn option \<times> 'fs \<times> (string \<Rightarrow> string option)" where
  "perform os (Makedirs p) f env =
     (case makedirs os f p of
        (None, f') \<Rightarrow> (None, f', env)
      | (Some (e, q), f') \<Rightarrow> (Some (OSError e q), f', env))"
| "perform os (SetEnv k v) f env = (None, f, env(k \<mapsto> v))"
| "perform os (Glob pat) f env = (None, f, env)"
| "perform os (Exec cmd cwd) f env =
     (if cmd = [] then (Some IndexError, f, env)
      else case run os f env cmd cwd of
             (r, f') \<Rightarrow> (if r = Exited 0 then None else Some (failure r cmd), f', env))"
| "perform os (Copytree src dst) f env =
     (case copytree os f src dst of
        (None, f') \<Rightarrow> (None, f', env)
      | (Some (e, q), f') \<Rightarrow> (Some (OSError e q), f', env))"

text \<open>Performing the calls of a plan in order: the first call that fails is the last one
  made, and its error is the result. The result is \<open>None\<close> when no call fails.\<close>

fun run_plan ::
  "'fs os \<Rightarrow> action list \<Rightarrow> 'fs \<Rightarrow> (string \<Rightarrow> string option)
     \<Rightarrow> exn option \<times> action list \<times> 'fs \<times> (string \<Rightarrow> string option)" where
  "run_plan os [] f env = (None, [], f, env)"
| "run_plan os (a # as) f env =
     (case perform os a f env of
        (Some e, f', env') \<Rightarrow> (Some e, [a], f', env')
      | (None, f', env') \<Rightarrow>
          (case run_plan os as f' env' of (r, made, f'', env'') \<Rightarrow> (r, a # made, f'', env'')))"

definition plan_error ::
  "'fs os \<Rightarrow> action list \<Rightarrow> 'fs \<Rightarrow> (string \<Rightarrow> string option) \<Rightarrow> exn option" where
  "plan_error os plan f env = fst (run_plan os plan f env)"

definition plan_calls ::
  "'fs os \<Rightarrow> action list \<Rightarrow> 'fs \<Rightarrow> (string \<Rightarrow> string option) \<Rightarrow> action list" where
  "plan_calls os plan f env = fst (snd (run_plan os plan f env))"

definition plan_fs ::
  "'fs os \<Rightarrow> action list \<Rightarrow> 'fs \<Rightarrow> (string \<Rightarrow> string option) \<Rightarrow> 'fs" where
  "plan_fs os plan f env = fst (snd (snd (run_plan os plan f env)))"

definition plan_env ::
  "'fs os \<Rightarrow> action list \<Rightarrow> 'fs \<Rightarrow> (string \<Rightarrow> string option)
     \<Rightarrow> (string \<Rightarrow> string option)" where
  "plan_env os plan f env = snd (snd (snd (run_plan os plan f env)))"

text \<open>A project-generation command (\<open>cmake <root> -GXcode ...\<close>), and one for a given
  platform and its install directory below the output directory.\<close>

definition is_generate :: "string list \<Rightarrow> bool" where
  "is_generate cmd = (take 1 cmd = [''cmake''] \<and> take 1 (drop 2 cmd) = [''-GXcode''])"

definition generate_for :: "path \<Rightarrow> string \<Rightarrow> string list \<Rightarrow> bool" where
  "generate_for out_dir platform cmd =
     (is_generate cmd \<and>
      take 1 (drop 4 cmd) = [''-DPLATFORM='' @ platform] \<and>
      take 1 (drop 10 cmd) = [''-DCMAKE_INSTALL_PREFIX='' @ path_join out_dir [platform]])"

text \<open>The discipline of the environment in a sequence of calls: a variable is set only
  immediately before a project-generation command, the variable is \<open>PKG_CONFIG_PATH\<close>,
  its value is \<open>lib/pkgconfig\<close> below the install directory of the platform the command
  generates for; and no project-generation command runs without it.\<close>

fun env_discipline :: "path \<Rightarrow> action list \<Rightarrow> bool" where
  "env_discipline out_dir [] = True"
| "env_discipline out_dir (SetEnv k v # Exec cmd cwd # as) =
     (k = ''PKG_CONFIG_PATH'' \<and>
      (\<exists>platform\<in>set get_platforms.
         v = path_join (path_join out_dir [platform]) [''lib'', ''pkgconfig''] \<and>
         generate_for out_dir platform cmd) \<and>
      env_discipline out_dir as)"
| "env_discipline out_dir (SetEnv k v # as) = False"
| "env_discipline out_dir (Exec cmd cwd # as) = (\<not> is_generate cmd \<and> env_discipline out_dir as)"
| "env_discipline out_dir (a # as) = env_discipline out_dir as"


fun is_SetEnv :: "action \<Rightarrow> bool" where
  "is_SetEnv (SetEnv k v) = True"
| "is_SetEnv a = False"

fun is_Executing :: "err_item \<Rightarrow> bool" where
  "is_Executing (Executing cmd cwd) = True"
| "is_Executing i = False"

subsection \<open>Relating the states before and after a program\<close>

text \<open>\<open>steps R m\<close>: the state after \<open>m\<close> is related to the state before it, whether \<open>m\<close>
  returns or raises. \<open>trace_ext P\<close>: the calls added to the trace satisfy \<open>P\<close>.
  \<open>env_frame\<close>: no variable but \<open>PKG_CONFIG_PATH\<close> has changed. \<open>raises_only E m\<close>:
  every exception \<open>m\<close> raises satisfies \<open>E\<close>. \<open>performs os plan m\<close>: the
  program \<open>m\<close> does what performing the plan does: the same calls, the same result,
  the same file system and environment.\<close>

definition steps :: "('fs state \<Rightarrow> 'fs state \<Rightarrow> bool) \<Rightarrow> ('fs, 'a) prog \<Rightarrow> bool" where
  "steps R m = (\<forall>s. R s (snd (m s)))"

definition trace_ext :: "(action list \<Rightarrow> bool) \<Rightarrow> 'fs state \<Rightarrow> 'fs state \<Rightarrow> bool" where
  "trace_ext P s s' = (\<exists>new. trace s' = trace s @ new \<and> P new)"

definition app_closed :: "(action list \<Rightarrow> bool) \<Rightarrow> bool" where
  "app_closed P = (P [] \<and> (\<forall>xs ys. P xs \<longrightarrow> P ys \<longrightarrow> P (xs @ ys)))"

definition env_frame :: "'fs state \<Rightarrow> 'fs state \<Rightarrow> bool" where
  "env_frame s s' = (\<forall>k. k \<noteq> ''PKG_CONFIG_PATH'' \<longrightarrow> environ s' k = environ s k)"

definition raises_only :: "(exn \<Rightarrow> bool) \<Rightarrow> ('fs, 'a) prog \<Rightarrow> bool" where
  "raises_only E m = (\<forall>s e. fst (m s) = Inl e \<longrightarrow> E e)"


section \<open>Properties\<close>

subsection \<open>Running a command\<close>

lemmas world_defs = os_ok_def os_libs_def os_magic_def os_libtool_fails_def os_all_fail_def
  os_no_libtool_def os_readonly_def s0_def b0_def a0_def

lemma execute_eq:
  "execute os cmd cwd s =
     (let r = run os (fs s) (environ s) cmd cwd;
          s' = s\<lparr>stdout := stdout s @ [''Executing: '' @ str_join '' '' cmd],
                 stderr := stderr s @ [Executing cmd cwd], trace := trace s @ [Exec cmd cwd]\<rparr>
      in if cmd = [] then (Inl IndexError, s')
         else (if fst r = Exited 0 then Inr () else Inl (failure (fst r) cmd), s'\<lparr>fs := snd r\<rparr>))"
  by (simp add: execute_def bind_def print_err_def print_out_def check_call_def ret_def raise_def
        Let_def split: prod.splits outcome.splits)

text \<open>
  Claim C9 (as amended). In \<open>execute\<close> the branch that raises
  \<open>Exception("Child returned:", retcode)\<close> is never taken: \<open>check_call\<close> returns 0 or
  raises. \<open>execute\<close> returns normally exactly when the command is started and exits with
  status 0; it raises \<open>CalledProcessError\<close> exactly when the command is started and exits
  with another status; when the command cannot be started it raises the error of the
  operating system, and \<open>IndexError\<close> when the command is the empty list.
\<close>

theorem C9_execute_outcome:
  "(\<forall>retcode. fst (execute os cmd cwd s) \<noteq> Inl (ChildReturned retcode)) \<and>
   fst (check_call os cmd cwd s) =
     (if cmd = [] then Inl IndexError
      else case fst (run os (fs s) (environ s) cmd cwd) of
             Exited retcode \<Rightarrow>
               if retcode \<noteq> 0 then Inl (CalledProcessError retcode cmd) else Inr 0
           | NotStarted e q \<Rightarrow> Inl (OSError e q)) \<and>
   fst (execute os cmd cwd s) =
     (if cmd = [] then Inl IndexError
      else case fst (run os (fs s) (environ s) cmd cwd) of
             Exited retcode \<Rightarrow>
               if retcode \<noteq> 0 then Inl (CalledProcessError retcode cmd) else Inr ()
           | NotStarted e q \<Rightarrow> Inl (OSError e q)) \<and>
   ((fst (execute os cmd cwd s) = Inr ()) =
      (cmd \<noteq> [] \<and> fst (run os (fs s) (environ s) cmd cwd) = Exited 0)) \<and>
   ((\<exists>retcode. fst (execute os cmd cwd s) = Inl (CalledProcessError retcode cmd)) =
      (cmd \<noteq> [] \<and> (\<exists>retcode. retcode \<noteq> 0 \<and>
         fst (run os (fs s) (environ s) cmd cwd) = Exited retcode)))"
  by (auto simp: execute_eq check_call_def Let_def split: prod.splits outcome.splits)

text \<open>A command that exits with status 0.\<close>

theorem C9_witness:
  "fst (run os_ok (fs s0) (environ s0) [''cmake'', ''--build'', ''.''] None) = Exited 0 \<and>
   fst (execute os_ok [''cmake'', ''--build'', ''.''] None s0) = Inr ()"
  using C9_execute_outcome [of os_ok "[''cmake'', ''--build'', ''.'']" None s0]
  by (simp add: os_ok_def)

text \<open>Against claim C9 as stated: on a machine without \<open>libtool\<close> the command does not
  exit with any status, and \<open>execute\<close> raises.\<close>

theorem C9_counterexample:
  "fst (run os_no_libtool (fs s0) (environ s0) [''libtool'', ''-static'', ''-o'', ''/out.a''] None)
     = NotStarted FileNotFound ''libtool'' \<and>
   fst (execute os_no_libtool [''libtool'', ''-static'', ''-o'', ''/out.a''] None s0)
     = Inl (OSError FileNotFound ''libtool'')"
  by (simp add: execute_eq world_defs)

subsection \<open>The project-generation command\<close>

text \<open>
  Claim C4. For every platform identifier, deployment target and bitcode flag, the
  project-generation command is the fixed list of eleven arguments followed by the extra
  flags; it holds the literal substitutions \<open>-DPLATFORM=<platform>\<close>,
  \<open>-DDEPLOYMENT_TARGET=<deployment target>\<close> and \<open>-DENABLE_BITCODE=ON\<close> when the bitcode
  flag is set, \<open>-DENABLE_BITCODE=OFF\<close> when it is not.
\<close>

theorem C4_generate_command_substitutions:
  "get_cmake_xcode_generate_command b os platform install_dir root_dir extra_flags ! 4
     = ''-DPLATFORM='' @ platform \<and>
   get_cmake_xcode_generate_command b os platform install_dir root_dir extra_flags ! 8
     = ''-DDEPLOYMENT_TARGET='' @ deployment_target b \<and>
   get_cmake_xcode_generate_command b os platform install_dir root_dir extra_flags ! 9
     = (if bitcode_enabled b then ''-DENABLE_BITCODE=ON'' else ''-DENABLE_BITCODE=OFF'') \<and>
   get_cmake_xcode_generate_command b os platform install_dir root_dir extra_flags
     = [''cmake'', root_dir, ''-GXcode'',
        ''-DCMAKE_TOOLCHAIN_FILE='' @ get_toolchain os,
        ''-DPLATFORM='' @ platform,
        ''-DCMAKE_XCODE_ATTRIBUTE_CODE_SIGN_IDENTITY='' @ [CHR 0x27, CHR 0x27],
        ''-DCMAKE_XCODE_ATTRIBUTE_DEVELOPMENT_TEAM='' @ [CHR 0x27, CHR 0x27],
        ''-DBUILD_SHARED_LIBS=OFF'',
        ''-DDEPLOYMENT_TARGET='' @ deployment_target b,
        (if bitcode_enabled b then ''-DENABLE_BITCODE=ON'' else ''-DENABLE_BITCODE=OFF''),
        ''-DCMAKE_INSTALL_PREFIX='' @ install_dir] @ extra_flags"
  by (simp add: get_cmake_xcode_generate_command_def)

subsection \<open>Globbing for static libraries\<close>

lemma join2_star_a:
  "join2 d ''*.a'' = (if d = [] \<or> last d = CHR ''/'' then d @ ''*.a'' else d @ ''/*.a'')"
  by (simp add: join2_def)

lemma path_split_star_a:
  "path_split (join2 d ''*.a'') =
     (let h = (if d = [] \<or> last d = CHR ''/'' then d else d @ ''/'')
      in (if h \<noteq> [] \<and> \<not> list_all (\<lambda>c. c = CHR ''/'') h then rstrip_sep h else h, ''*.a''))"
proof (cases "d = []")
  case True
  then show ?thesis by (simp add: join2_star_a path_split_def)
next
  case False
  then obtain ys y where d: "d = ys @ [y]" by (meson rev_exhaust)
  show ?thesis
    by (simp add: join2_star_a path_split_def d Let_def)
qed

lemma glob_dirname_eq:
  "glob_dirname d =
     (let h = (if d = [] \<or> last d = CHR ''/'' then d else d @ ''/'')
      in if h \<noteq> [] \<and> \<not> list_all (\<lambda>c. c = CHR ''/'') h then rstrip_sep h else h)"
  by (simp add: glob_dirname_def path_split_star_a Let_def)

lemma has_magic_set: "has_magic s = (\<exists>c\<in>set s. c = CHR ''*'' \<or> c = CHR ''?'' \<or> c = CHR ''['')"
  by (simp add: has_magic_def list_ex_iff)

lemma set_rstrip_sep: "set (rstrip_sep h) \<subseteq> set h"
  by (auto simp: rstrip_sep_def dest: set_dropWhileD)

lemma has_magic_glob_dirname: "\<not> has_magic d \<Longrightarrow> \<not> has_magic (glob_dirname d)"
  using set_rstrip_sep[of d] set_rstrip_sep[of "d @ ''/''"]
  by (auto simp: glob_dirname_eq has_magic_set Let_def split: if_splits)

lemma glob_dirname_plain: "d \<noteq> [] \<Longrightarrow> last d \<noteq> CHR ''/'' \<Longrightarrow> glob_dirname d = d"
proof -
  assume a: "d \<noteq> []" "last d \<noteq> CHR ''/''"
  then obtain ys y where d: "d = ys @ [y]" by (meson rev_exhaust)
  with a have "y \<noteq> CHR ''/''" by simp
  then show ?thesis by (simp add: glob_dirname_eq d rstrip_sep_def)
qed

lemma glob_static_libs_plain:
  "\<not> has_magic d \<Longrightarrow>
   glob_static_libs os d s =
     (Inr (map (join2 (glob_dirname d)) (glob1_star_a os (fs s) (glob_dirname d))),
      s\<lparr>trace := trace s @ [Glob (join2 d ''*.a'')]\<rparr>)"
  using has_magic_glob_dirname[of d]
  by (simp add: glob_static_libs_def glob_dirname_def Let_def case_prod_beta)

lemmas path_defs = join2_def path_join_def path_split_def rstrip_sep_def has_magic_def
  matches_star_a_def ishidden_def endswith_def glob1_star_a_def

lemmas glob_eval = glob_static_libs_def path_defs Let_def

subsection \<open>Merging the libraries of a directory\<close>

lemma merge_libs_in_directory_eq:
  "merge_libs_in_directory os d out s =
     (case glob_static_libs os d (s\<lparr>stdout := stdout s @ [''Merging libraries in path '' @ d]\<rparr>) of
        (Inl e, s') \<Rightarrow> (Inl e, s')
      | (Inr libs, s') \<Rightarrow>
          execute os ([''libtool'', ''-static'', ''-o'', out] @ libs) None
            (s'\<lparr>stderr := stderr s' @ [Text (''Merging libraries:'' @ [CHR 0x0A, CHR 0x09]
                              @ str_join [CHR 0x0A, CHR 0x09] libs)]\<rparr>))"
  by (simp add: merge_libs_in_directory_def bind_def print_out_def print_err_def split: prod.splits sum.splits)

text \<open>
  Claim C5 (as amended). For every directory whose path holds none of the pattern
  characters \<open>*\<close>, \<open>?\<close> and \<open>[\<close>, and which holds N files matching \<open>*.a\<close> (names that end
  with \<open>.a\<close> and do not start with a dot), the merge step invokes \<open>libtool -static\<close> once,
  with the one output path after \<open>-o\<close> and the N file paths as inputs.
\<close>

theorem C5_merge_invokes_archiver:
  "\<not> has_magic d \<and> listdir os (fs s) (glob_dirname d) = Some names \<longrightarrow>
   trace (snd (merge_libs_in_directory os d out s)) =
     trace s @ [Glob (join2 d ''*.a''),
                Exec ([''libtool'', ''-static'', ''-o'', out]
                       @ map (join2 (glob_dirname d)) (filter matches_star_a names)) None]"
  by (simp add: merge_libs_in_directory_eq glob_static_libs_plain execute_eq Let_def glob1_star_a_def)

text \<open>An installation with two static libraries among four names.\<close>

theorem C5_witness:
  "\<not> has_magic ''/out/SIMULATOR64/lib'' \<and>
   listdir os_libs (fs s0) (glob_dirname ''/out/SIMULATOR64/lib'')
     = Some [''libavro.a'', ''README'', ''.hidden.a'', ''libjansson.a''] \<and>
   trace (snd (merge_libs_in_directory os_libs ''/out/SIMULATOR64/lib''
                 ''/out/intermediate/avro_SIMULATOR64.a'' s0)) =
     [Glob ''/out/SIMULATOR64/lib/*.a'',
      Exec [''libtool'', ''-static'', ''-o'', ''/out/intermediate/avro_SIMULATOR64.a'',
            ''/out/SIMULATOR64/lib/libavro.a'', ''/out/SIMULATOR64/lib/libjansson.a''] None]"
  using C5_merge_invokes_archiver [of "''/out/SIMULATOR64/lib''" os_libs s0
      "[''libavro.a'', ''README'', ''.hidden.a'', ''libjansson.a'']"
      "''/out/intermediate/avro_SIMULATOR64.a''"]
  by (simp add: glob_dirname_def path_defs world_defs)

text \<open>Against claim C5 as stated: the directory \<open>/o[1]/SIMULATOR64/lib\<close> holds one static
  library, and the archiver is invoked with no input.\<close>

theorem C5_counterexample:
  "listdir os_magic (fs s0) ''/o[1]/SIMULATOR64/lib'' = Some [''libavro.a''] \<and>
   matches_star_a ''libavro.a'' \<and>
   trace (snd (merge_libs_in_directory os_magic ''/o[1]/SIMULATOR64/lib''
                 ''/o[1]/intermediate/avro_SIMULATOR64.a'' s0)) =
     [Glob ''/o[1]/SIMULATOR64/lib/*.a'',
      Exec [''libtool'', ''-static'', ''-o'', ''/o[1]/intermediate/avro_SIMULATOR64.a''] None]"
  by (simp add: merge_libs_in_directory_eq execute_eq glob_eval world_defs)

text \<open>
  Claim C3 (as amended). If a platform's \<open>lib\<close> directory cannot be listed (the install
  directory or its \<open>lib\<close> subdirectory does not exist) and its path holds no pattern
  character, the merge step does not notice: the glob gives no path and no error, the
  archiver is invoked with no input, and the outcome is that of the archiver run: the
  step returns normally when the archiver exits with status 0, raises
  \<open>CalledProcessError\<close> when it exits with another status, and raises the error of the
  operating system when it cannot be started.
\<close>

theorem C3_missing_directory_runs_archiver:
  "\<not> has_magic d \<and> listdir os (fs s) (glob_dirname d) = None \<longrightarrow>
   trace (snd (merge_libs_in_directory os d out s)) =
     trace s @ [Glob (join2 d ''*.a''), Exec [''libtool'', ''-static'', ''-o'', out] None] \<and>
   fst (merge_libs_in_directory os d out s) =
     (case fst (run os (fs s) (environ s) [''libtool'', ''-static'', ''-o'', out] None) of
        Exited retcode \<Rightarrow>
          if retcode = 0 then Inr ()
          else Inl (CalledProcessError retcode [''libtool'', ''-static'', ''-o'', out])
      | NotStarted e q \<Rightarrow> Inl (OSError e q))"
  by (simp add: merge_libs_in_directory_eq glob_static_libs_plain execute_eq Let_def glob1_star_a_def
        split: outcome.splits)

theorem C3_witness:
  "\<not> has_magic ''/out/OS64/lib'' \<and>
   listdir os_libs (fs s0) (glob_dirname ''/out/OS64/lib'') = None \<and>
   trace (snd (merge_libs_in_directory os_libs ''/out/OS64/lib''
                 ''/out/intermediate/avro_OS64.a'' s0)) =
     [Glob ''/out/OS64/lib/*.a'',
      Exec [''libtool'', ''-static'', ''-o'', ''/out/intermediate/avro_OS64.a''] None] \<and>
   fst (merge_libs_in_directory os_libs ''/out/OS64/lib'' ''/out/intermediate/avro_OS64.a'' s0)
     = Inr ()"
  using C3_missing_directory_runs_archiver [of "''/out/OS64/lib''" os_libs s0
      "''/out/intermediate/avro_OS64.a''"]
  by (simp add: glob_dirname_def path_defs world_defs)

text \<open>Against claim C3 as stated: neither the install directory nor its \<open>lib\<close> directory
  exists; the merge step returns normally when \<open>libtool\<close> exits with status 0, and raises
  \<open>CalledProcessError\<close>, not a file-not-found error, when \<open>libtool\<close> exits with status 1.\<close>

theorem C3_counterexample:
  "listdir os_ok (fs s0) ''/out/SIMULATOR64'' = None \<and>
   listdir os_ok (fs s0) ''/out/SIMULATOR64/lib'' = None \<and>
   fst (merge_libs_in_directory os_ok ''/out/SIMULATOR64/lib''
          ''/out/intermediate/avro_SIMULATOR64.a'' s0) = Inr () \<and>
   fst (merge_libs_in_directory os_libtool_fails ''/out/SIMULATOR64/lib''
          ''/out/intermediate/avro_SIMULATOR64.a'' s0)
     = Inl (CalledProcessError 1
              [''libtool'', ''-static'', ''-o'', ''/out/intermediate/avro_SIMULATOR64.a''])"
  by (simp add: merge_libs_in_directory_eq execute_eq glob_eval world_defs)

subsection \<open>The universal library\<close>

lemma create_universal_static_lib_eq:
  "create_universal_static_lib os d out s =
     (case glob_static_libs os d s of
        (Inl e, s') \<Rightarrow> (Inl e, s')
      | (Inr libs, s') \<Rightarrow>
          execute os ([''lipo'', ''-create''] @ libs @ [''-o'', out]) None
            (s'\<lparr>stderr := stderr s' @ [Text (''Creating universal library from:''
                              @ [CHR 0x0A, CHR 0x09] @ str_join [CHR 0x0A, CHR 0x09] libs)]\<rparr>))"
  by (simp add: create_universal_static_lib_def bind_def print_err_def Let_def
        split: prod.splits sum.splits)

text \<open>
  Claim C6 (as amended). Given the two per-platform merged archives in the intermediate
  directory, and a directory path that holds none of the pattern characters \<open>*\<close>, \<open>?\<close>
  and \<open>[\<close>, the universal-binary step invokes \<open>lipo -create\<close> once, with both archives as
  inputs and the one output path after \<open>-o\<close>.
\<close>

theorem C6_universal_step_invokes_lipo:
  "\<not> has_magic d \<and> listdir os (fs s) (glob_dirname d) = Some names \<and>
   filter matches_star_a names = [a1, a2] \<longrightarrow>
   trace (snd (create_universal_static_lib os d out s)) =
     trace s @ [Glob (join2 d ''*.a''),
                Exec [''lipo'', ''-create'', join2 (glob_dirname d) a1, join2 (glob_dirname d) a2,
                      ''-o'', out] None]"
  by (simp add: create_universal_static_lib_eq glob_static_libs_plain execute_eq Let_def glob1_star_a_def)

theorem C6_witness:
  "\<not> has_magic ''/out/intermediate'' \<and>
   listdir os_libs (fs s0) (glob_dirname ''/out/intermediate'')
     = Some [''avro_SIMULATOR64.a'', ''avro_OS64.a''] \<and>
   filter matches_star_a [''avro_SIMULATOR64.a'', ''avro_OS64.a'']
     = [''avro_SIMULATOR64.a'', ''avro_OS64.a''] \<and>
   trace (snd (create_universal_static_lib os_libs ''/out/intermediate''
                 ''/out/avro.framework/avro'' s0)) =
     [Glob ''/out/intermediate/*.a'',
      Exec [''lipo'', ''-create'', ''/out/intermediate/avro_SIMULATOR64.a'',
            ''/out/intermediate/avro_OS64.a'', ''-o'', ''/out/avro.framework/avro''] None]"
  using C6_universal_step_invokes_lipo [of "''/out/intermediate''" os_libs s0 "[''avro_SIMULATOR64.a'', ''avro_OS64.a'']"
      "''avro_SIMULATOR64.a''" "''avro_OS64.a''" "''/out/avro.framework/avro''"]
  by (simp add: glob_dirname_def path_defs world_defs)

text \<open>Against claim C6 as stated: the intermediate directory \<open>/o[1]/intermediate\<close> holds
  the two archives, and \<open>lipo\<close> is invoked with no input.\<close>

theorem C6_counterexample:
  "listdir os_magic (fs s0) ''/o[1]/intermediate'' = Some [''avro_SIMULATOR64.a'', ''avro_OS64.a''] \<and>
   trace (snd (create_universal_static_lib os_magic ''/o[1]/intermediate''
                 ''/o[1]/avro.framework/avro'' s0)) =
     [Glob ''/o[1]/intermediate/*.a'',
      Exec [''lipo'', ''-create'', ''-o'', ''/o[1]/avro.framework/avro''] None]"
  by (simp add: create_universal_static_lib_eq execute_eq glob_eval world_defs)

subsection \<open>Composing programs\<close>

lemma bind_fst_cases:
  "fst (bind m f s) = (case fst (m s) of Inl e \<Rightarrow> Inl e | Inr x \<Rightarrow> fst (f x (snd (m s))))"
  by (simp add: bind_def split: prod.splits sum.splits)

lemma bind_raise: "bind (raise e) f = raise e"
  by (rule ext) (simp add: bind_def raise_def)

lemma steps_ret: "reflp R \<Longrightarrow> steps R (ret x)"
  by (simp add: steps_def ret_def reflpD)

lemma steps_raise: "reflp R \<Longrightarrow> steps R (raise e)"
  by (simp add: steps_def raise_def reflpD)

lemma steps_bind:
  assumes "transp R" and "steps R m" and "\<And>x. steps R (f x)"
  shows "steps R (bind m f)"
proof -
  have "R s (snd (bind m f s))" for s
  proof (cases "m s")
    case (Pair r s')
    have 1: "R s s'" using assms(2) Pair by (auto simp: steps_def dest: spec[of _ s])
    show ?thesis
    proof (cases r)
      case (Inl e)
      with Pair 1 show ?thesis by (simp add: bind_def)
    next
      case (Inr x)
      have "R s' (snd (f x s'))" using assms(3)[of x] by (simp add: steps_def)
      with 1 assms(1) have "R s (snd (f x s'))" by (blast dest: transpD)
      with Pair Inr show ?thesis by (simp add: bind_def)
    qed
  qed
  then show ?thesis by (simp add: steps_def)
qed

lemma steps_for_each:
  assumes "reflp R" and "transp R" and "\<And>x. x \<in> set xs \<Longrightarrow> steps R (body x)"
  shows "steps R (for_each xs body)"
  using assms(3)
proof (induction xs)
  case Nil
  show ?case using assms(1) by (simp add: steps_ret)
next
  case (Cons x xs)
  show ?case using Cons assms(2) by (auto intro!: steps_bind)
qed

lemma steps_build:
  assumes "steps R (priv_build b os out_dir0 root_dir0 lib_name (case extra of None \<Rightarrow> [] | Some fl \<Rightarrow> fl))"
    and "\<And>s s' l. R s s' \<Longrightarrow> R s (s'\<lparr>stderr := l\<rparr>)"
  shows "steps R (build b os out_dir0 root_dir0 lib_name extra)"
proof -
  let ?p = "priv_build b os out_dir0 root_dir0 lib_name (case extra of None \<Rightarrow> [] | Some fl \<Rightarrow> fl)"
  have "R s (snd (build b os out_dir0 root_dir0 lib_name extra s))" for s
  proof -
    have 1: "R s (snd (?p s))" using assms(1) by (simp add: steps_def)
    then have 2: "R s ((snd (?p s))\<lparr>stderr := l\<rparr>)" for l by (rule assms(2))
    show ?thesis
      using 1 2 by (cases "?p s") (auto simp: build_def Let_def split: sum.splits)
  qed
  then show ?thesis by (simp add: steps_def)
qed

lemma reflp_trace_ext: "app_closed P \<Longrightarrow> reflp (trace_ext P)"
  by (auto simp: reflp_def trace_ext_def app_closed_def)

lemma transp_trace_ext: "app_closed P \<Longrightarrow> transp (trace_ext P)"
  unfolding transp_def trace_ext_def app_closed_def
  by (metis append.assoc)

lemma app_closed_list_all: "app_closed (list_all Q)"
  by (simp add: app_closed_def)

lemma trace_ext_print_out: "app_closed P \<Longrightarrow> steps (trace_ext P) (print_out l)"
  by (simp add: steps_def print_out_def trace_ext_def app_closed_def)

lemma trace_ext_print_err: "app_closed P \<Longrightarrow> steps (trace_ext P) (print_err l)"
  by (simp add: steps_def print_err_def trace_ext_def app_closed_def)

lemma trace_ext_makedirs: "P [Makedirs p] \<Longrightarrow> steps (trace_ext P) (os_makedirs os p)"
  by (simp add: steps_def os_makedirs_def trace_ext_def split: prod.splits option.splits)

lemma trace_ext_execute: "P [Exec cmd cwd] \<Longrightarrow> steps (trace_ext P) (execute os cmd cwd)"
  by (auto simp: steps_def execute_eq trace_ext_def Let_def)

lemma trace_ext_glob: "P [Glob (join2 d ''*.a'')] \<Longrightarrow> steps (trace_ext P) (glob_static_libs os d)"
  by (simp add: steps_def glob_static_libs_def trace_ext_def Let_def case_prod_beta)

lemma trace_ext_set_environ: "P [SetEnv k v] \<Longrightarrow> steps (trace_ext P) (set_environ k v)"
  by (simp add: steps_def set_environ_def trace_ext_def)

lemma trace_ext_stderr: "trace_ext P s s' \<Longrightarrow> trace_ext P s (s'\<lparr>stderr := l\<rparr>)"
  by (simp add: trace_ext_def)

lemma trace_ext_merge_libs_in_directory:
  assumes "app_closed P" and "P [Glob (join2 d ''*.a'')]"
    and "\<And>libs. P [Exec ([''libtool'', ''-static'', ''-o'', out] @ libs) None]"
  shows "steps (trace_ext P) (merge_libs_in_directory os d out)"
  unfolding merge_libs_in_directory_def
  by (intro steps_bind transp_trace_ext assms trace_ext_print_out trace_ext_print_err
        trace_ext_glob trace_ext_execute)

lemma raises_only_ret: "raises_only E (ret x)"
  by (simp add: raises_only_def ret_def)

lemma raises_only_raise: "E e \<Longrightarrow> raises_only E (raise e)"
  by (simp add: raises_only_def raise_def)

lemma raises_only_weaken: "raises_only E m \<Longrightarrow> (\<And>e. E e \<Longrightarrow> E' e) \<Longrightarrow> raises_only E' m"
  by (auto simp: raises_only_def)

lemma raises_only_bind:
  "raises_only E m \<Longrightarrow> (\<And>x. raises_only E (f x)) \<Longrightarrow> raises_only E (bind m f)"
  by (auto simp: raises_only_def bind_fst_cases split: sum.splits)

lemma raises_only_for_each:
  "(\<And>x. x \<in> set xs \<Longrightarrow> raises_only E (body x)) \<Longrightarrow> raises_only E (for_each xs body)"
  by (induction xs) (auto intro!: raises_only_bind raises_only_ret)

lemma raises_only_print_out: "raises_only E (print_out l)"
  by (simp add: raises_only_def print_out_def)

lemma raises_only_print_err: "raises_only E (print_err l)"
  by (simp add: raises_only_def print_err_def)

lemma raises_only_set_environ: "raises_only E (set_environ k v)"
  by (simp add: raises_only_def set_environ_def)

lemma raises_only_glob: "raises_only E (glob_static_libs os d)"
  by (simp add: raises_only_def glob_static_libs_def Let_def case_prod_beta)

lemma raises_only_makedirs: "(\<And>k q. E (OSError k q)) \<Longrightarrow> raises_only E (os_makedirs os p)"
  by (auto simp: raises_only_def os_makedirs_def split: prod.splits option.splits)

lemma raises_only_execute:
  "(\<And>e. is_Exception e \<Longrightarrow> E e) \<Longrightarrow> raises_only E (execute os cmd cwd)"
proof -
  assume a: "\<And>e. is_Exception e \<Longrightarrow> E e"
  have "is_Exception (failure r cmd)" for r by (cases r) auto
  with a show ?thesis
    by (auto simp: raises_only_def execute_eq Let_def split: if_splits)
qed

lemma raises_only_merge_libs_in_directory:
  "(\<And>e. is_Exception e \<Longrightarrow> E e) \<Longrightarrow> raises_only E (merge_libs_in_directory os d out)"
  unfolding merge_libs_in_directory_def
  by (intro raises_only_bind raises_only_print_out raises_only_print_err raises_only_glob
        raises_only_execute)

text \<open>Plans: performing a plan made of two parts, and of a first call and the rest.\<close>

lemmas plan_defs = plan_error_def plan_calls_def plan_fs_def plan_env_def

lemma run_plan_append:
  "run_plan os (A @ B) f env =
     (case run_plan os A f env of
        (Some e, made, f', env') \<Rightarrow> (Some e, made, f', env')
      | (None, made, f', env') \<Rightarrow>
          (case run_plan os B f' env' of (r, made2, f'', env'') \<Rightarrow> (r, made @ made2, f'', env'')))"
  by (induction A arbitrary: f env) (auto split: prod.splits option.splits)

lemma plan_append:
  "plan_error os (A @ B) f env =
     (case plan_error os A f env of
        Some e \<Rightarrow> Some e
      | None \<Rightarrow> plan_error os B (plan_fs os A f env) (plan_env os A f env))"
  "plan_calls os (A @ B) f env =
     (case plan_error os A f env of
        Some e \<Rightarrow> plan_calls os A f env
      | None \<Rightarrow> plan_calls os A f env @ plan_calls os B (plan_fs os A f env) (plan_env os A f env))"
  "plan_fs os (A @ B) f env =
     (case plan_error os A f env of
        Some e \<Rightarrow> plan_fs os A f env
      | None \<Rightarrow> plan_fs os B (plan_fs os A f env) (plan_env os A f env))"
  "plan_env os (A @ B) f env =
     (case plan_error os A f env of
        Some e \<Rightarrow> plan_env os A f env
      | None \<Rightarrow> plan_env os B (plan_fs os A f env) (plan_env os A f env))"
  by (simp_all add: plan_defs run_plan_append split: prod.splits option.splits)

lemma plan_Cons:
  "plan_error os (a # as) f env =
     (case fst (perform os a f env) of
        Some e \<Rightarrow> Some e
      | None \<Rightarrow> plan_error os as (fst (snd (perform os a f env))) (snd (snd (perform os a f env))))"
  "plan_calls os (a # as) f env =
     (case fst (perform os a f env) of
        Some e \<Rightarrow> [a]
      | None \<Rightarrow>
          a # plan_calls os as (fst (snd (perform os a f env))) (snd (snd (perform os a f env))))"
  by (simp_all add: plan_defs split: prod.splits option.splits)

lemma plan_Nil: "plan_error os [] f env = None" "plan_calls os [] f env = []"
  by (simp_all add: plan_defs)


lemma plan_calls_complete: "plan_error os plan f env = None \<Longrightarrow> plan_calls os plan f env = plan"
  by (induction plan arbitrary: f env) (simp_all add: plan_Cons plan_Nil split: option.splits)

text \<open>The first call of a plan that fails ends it: when the calls \<open>as\<close> succeed and the
  call \<open>a\<close> then fails, the calls made are \<open>as\<close> and \<open>a\<close>, whatever follows in the plan.\<close>

lemma plan_stops_at_failure:
  assumes "plan_error os as f env = None"
    and "fst (perform os a (plan_fs os as f env) (plan_env os as f env)) = Some e"
  shows "plan_error os (as @ a # bs) f env = Some e \<and> plan_calls os (as @ a # bs) f env = as @ [a]"
  using assms by (simp add: plan_append plan_Cons plan_calls_complete)








subsection \<open>The merge routine\<close>

text \<open>The names \<open>final_lib_path\<close> and \<open>final_include_path\<close> are bound in no scope, so the
  routine ends where it reads the first of them.\<close>

lemma load_final_lib_path:
  "load_name
     [(''self'', v1), (''out_dir'', v2), (''lib_name'', v3), (''platform_libs_path'', v4),
      (''platforms'', v5), (''platform'', v6), (''platform_install_dir'', v7),
      (''platform_merged_lib_file'', v8), (''platform_lib_dir'', v9),
      (''framework_path'', v10), (''framework_include_path'', v11)] ''final_lib_path''
   = raise (NameError ''final_lib_path'')"
  by (simp add: load_name_def module_scope_def)

lemma load_final_include_path:
  "load_name
     [(''self'', v1), (''out_dir'', v2), (''lib_name'', v3), (''platform_libs_path'', v4),
      (''platforms'', v5), (''platform'', v6), (''platform_install_dir'', v7),
      (''platform_merged_lib_file'', v8), (''platform_lib_dir'', v9),
      (''framework_path'', v10), (''framework_include_path'', v11)] ''final_include_path''
   = raise (NameError ''final_include_path'')"
  by (simp add: load_name_def module_scope_def)

lemma merge_libs_eq:
  "merge_libs b os out_dir0 lib_name =
     bind (os_makedirs os (path_join (abspath os out_dir0) [''intermediate''])) (\<lambda>_.
     bind (for_each get_platforms (\<lambda>platform.
             merge_libs_in_directory os
               (path_join (platform_install_dir (abspath os out_dir0) platform) [''lib''])
               (path_join (path_join (abspath os out_dir0) [''intermediate''])
                  [platform_lib_file lib_name platform]))) (\<lambda>_.
     raise (NameError ''final_lib_path'')))"
  by (simp add: merge_libs_def Let_def load_final_lib_path bind_raise)

lemmas merge_eval = merge_libs_eq get_platforms_def for_each.simps bind_def raise_def ret_def
  os_makedirs_def merge_libs_in_directory_eq execute_eq glob_eval platform_install_dir_def
  platform_lib_file_def world_defs

lemma merge_libs_actions:
  "steps (trace_ext (list_all (merge_action (abspath os out_dir0)))) (merge_libs b os out_dir0 lib_name)"
  unfolding merge_libs_eq
  by (intro steps_bind steps_for_each steps_raise transp_trace_ext reflp_trace_ext
        app_closed_list_all trace_ext_makedirs trace_ext_merge_libs_in_directory) auto




lemma merge_libs_never_returns: "\<exists>e. fst (merge_libs b os out_dir0 lib_name s) = Inl e"
  by (simp add: merge_libs_eq bind_fst_cases raise_def split: sum.splits)

lemma merge_libs_raises_Exception:
  "raises_only is_Exception (merge_libs b os out_dir0 lib_name)"
  unfolding merge_libs_eq
  by (intro raises_only_bind raises_only_for_each raises_only_raise raises_only_makedirs
        raises_only_merge_libs_in_directory) auto









text \<open>Two more failures before the unbound names: the output directory is read-only and
  the error names it, not the intermediate directory; \<open>libtool\<close> is not installed.\<close>

lemma merge_libs_failure_examples:
  "fst (merge_libs b0 os_readonly ''/out'' ''avro'' s0) = Inl (OSError PermissionDenied ''/out'') \<and>
   trace (snd (merge_libs b0 os_readonly ''/out'' ''avro'' s0)) = [Makedirs ''/out/intermediate''] \<and>
   fst (merge_libs b0 os_no_libtool ''/out'' ''avro'' s0) = Inl (OSError FileNotFound ''libtool'') \<and>
   trace (snd (merge_libs b0 os_no_libtool ''/out'' ''avro'' s0)) =
     [Makedirs ''/out/intermediate'',
      Glob ''/out/SIMULATOR64/lib/*.a'',
      Exec [''libtool'', ''-static'', ''-o'', ''/out/intermediate/avro_SIMULATOR64.a''] None]"
  by (simp add: merge_eval os_readonly_def)

text \<open>
  Claim C10. The include tree of the framework is to be copied from the install include
  directory of the first platform. The merge step never gets there: it never returns
  normally, and every call it makes is the creation of the intermediate directory, a
  glob in a platform's \<open>lib\<close> directory or a run of \<open>libtool\<close>; no tree is copied, from
  either platform.
\<close>

theorem C10_include_tree_never_copied:
  "(\<exists>e. fst (merge_libs b os out_dir lib_name s) = Inl e) \<and>
   (\<exists>new. trace (snd (merge_libs b os out_dir lib_name s)) = trace s @ new \<and>
      list_all (merge_action (abspath os out_dir)) new \<and>
      list_all (\<lambda>a. \<nexists>src dst. a = Copytree src dst) new)"
proof -
  from merge_libs_actions[of os out_dir b lib_name]
  obtain new where new: "trace (snd (merge_libs b os out_dir lib_name s)) = trace s @ new"
    "list_all (merge_action (abspath os out_dir)) new"
    unfolding steps_def trace_ext_def by blast
  have "list_all (\<lambda>a. \<nexists>src dst. a = Copytree src dst) new"
    using new(2) by (auto simp: list_all_iff)
  with new merge_libs_never_returns[of b os out_dir lib_name s] show ?thesis by blast
qed

text \<open>With libraries installed and every command succeeding, the merge step ends in
  \<open>NameError\<close> after the second \<open>libtool\<close> run.\<close>

theorem C10_witness:
  "fst (merge_libs b0 os_libs ''/out'' ''avro'' s0) = Inl (NameError ''final_lib_path'') \<and>
   trace (snd (merge_libs b0 os_libs ''/out'' ''avro'' s0)) =
     [Makedirs ''/out/intermediate'',
      Glob ''/out/SIMULATOR64/lib/*.a'',
      Exec [''libtool'', ''-static'', ''-o'', ''/out/intermediate/avro_SIMULATOR64.a'',
            ''/out/SIMULATOR64/lib/libavro.a'', ''/out/SIMULATOR64/lib/libjansson.a''] None,
      Glob ''/out/OS64/lib/*.a'',
      Exec [''libtool'', ''-static'', ''-o'', ''/out/intermediate/avro_OS64.a''] None]"
  using C10_include_tree_never_copied [of b0 os_libs "''/out''" "''avro''" s0]
  by (simp add: merge_eval)

subsection \<open>The build routine\<close>






subsection \<open>The environment\<close>

lemma env_discipline_append:
  "env_discipline out_dir xs \<Longrightarrow> env_discipline out_dir ys \<Longrightarrow> env_discipline out_dir (xs @ ys)"
  by (induction out_dir xs rule: env_discipline.induct) auto

lemma app_closed_env_discipline: "app_closed (env_discipline out_dir)"
  by (simp add: app_closed_def env_discipline_append)

lemma build_command_not_generate: "\<not> is_generate (get_cmake_build_command b)"
  by (simp add: is_generate_def get_cmake_build_command_def)

lemma generate_command_generate_for:
  "generate_for out_dir platform
     (get_cmake_xcode_generate_command b os platform (path_join out_dir [platform]) root_dir extra)"
  by (simp add: generate_for_def is_generate_def get_cmake_xcode_generate_command_def)

lemma env_discipline_build_platform:
  "platform \<in> set get_platforms \<Longrightarrow>
   steps (trace_ext (env_discipline out_dir))
     (build_platform b os platform build_dir (path_join out_dir [platform]) root_dir extra)"
  using build_command_not_generate[of b]
    generate_command_generate_for[of out_dir platform b os root_dir extra]
  by (auto simp: steps_def trace_ext_def build_platform_def bind_def set_environ_def execute_eq Let_def)

lemma env_discipline_priv_build:
  "steps (trace_ext (env_discipline (abspath os out_dir0)))
     (priv_build b os out_dir0 root_dir0 lib_name extra)"
  unfolding priv_build_def Let_def
  by (intro steps_bind steps_for_each transp_trace_ext reflp_trace_ext
        app_closed_env_discipline trace_ext_makedirs trace_ext_print_out
        env_discipline_build_platform) auto

lemma env_discipline_merge_libs:
  "steps (trace_ext (env_discipline (abspath os out_dir0))) (merge_libs b os out_dir0 lib_name)"
  unfolding merge_libs_eq
  by (intro steps_bind steps_for_each steps_raise transp_trace_ext reflp_trace_ext
        app_closed_env_discipline trace_ext_makedirs trace_ext_merge_libs_in_directory)
     (auto simp: is_generate_def)

lemma env_discipline_main:
  "steps (trace_ext (env_discipline (abspath os (arg_out_dir a)))) (main os a)"
  unfolding main_def Let_def
  by (intro steps_bind steps_build transp_trace_ext reflp_trace_ext app_closed_env_discipline
        env_discipline_priv_build env_discipline_merge_libs trace_ext_stderr)

lemma reflp_env_frame: "reflp env_frame"
  by (simp add: reflp_def env_frame_def)

lemma transp_env_frame: "transp env_frame"
  by (simp add: transp_def env_frame_def)

lemma env_frame_print_out: "steps env_frame (print_out l)"
  by (simp add: steps_def print_out_def env_frame_def)

lemma env_frame_print_err: "steps env_frame (print_err l)"
  by (simp add: steps_def print_err_def env_frame_def)

lemma env_frame_makedirs: "steps env_frame (os_makedirs os p)"
  by (simp add: steps_def os_makedirs_def env_frame_def split: prod.splits option.splits)

lemma env_frame_execute: "steps env_frame (execute os cmd cwd)"
  by (auto simp: steps_def execute_eq env_frame_def Let_def)

lemma env_frame_glob: "steps env_frame (glob_static_libs os d)"
  by (simp add: steps_def glob_static_libs_def env_frame_def Let_def case_prod_beta)

lemma env_frame_set_environ: "steps env_frame (set_environ ''PKG_CONFIG_PATH'' v)"
  by (simp add: steps_def set_environ_def env_frame_def)

lemma env_frame_stderr: "env_frame s s' \<Longrightarrow> env_frame s (s'\<lparr>stderr := l\<rparr>)"
  by (simp add: env_frame_def)

lemma env_frame_priv_build:
  "steps env_frame (priv_build b os out_dir0 root_dir0 lib_name extra)"
  unfolding priv_build_def build_platform_def Let_def
  by (intro steps_bind steps_for_each transp_env_frame reflp_env_frame env_frame_makedirs
        env_frame_print_out env_frame_set_environ env_frame_execute)

lemma env_frame_merge_libs: "steps env_frame (merge_libs b os out_dir0 lib_name)"
  unfolding merge_libs_eq merge_libs_in_directory_def
  by (intro steps_bind steps_for_each steps_raise transp_env_frame reflp_env_frame
        env_frame_makedirs env_frame_print_out env_frame_print_err env_frame_glob
        env_frame_execute)

lemma env_frame_main: "steps env_frame (main os a)"
  unfolding main_def Let_def
  by (intro steps_bind steps_build transp_env_frame env_frame_priv_build env_frame_merge_libs
        env_frame_stderr)

lemma run_script_state:
  "trace (snd (run_script os a s)) = trace (snd (main os a s)) \<and>
   environ (snd (run_script os a s)) = environ (snd (main os a s))"
  by (simp add: run_script_def split: prod.splits sum.splits exn.splits)

lemmas script_eval = run_script_def main_def build_def banner_def JANSSON_EXTRA_CMAKE_FLAGS_def
  get_cmake_xcode_generate_command_def get_cmake_build_command_def get_toolchain_def
  priv_build_def build_platform_def print_out_def set_environ_def
  get_path_relative_to_script_def merge_eval s1_def

text \<open>
  Claim C8. In every run of the program, the environment is written only immediately
  before the project-generation command of a platform build, and every such command is
  immediately preceded by such a write: the variable is \<open>PKG_CONFIG_PATH\<close> and the value
  is \<open>lib/pkgconfig\<close> below that platform's install directory. No other variable of the
  environment is modified.
\<close>

theorem C8_only_pkg_config_path:
  "(\<exists>new. trace (snd (run_script os a s)) = trace s @ new \<and>
      env_discipline (abspath os (arg_out_dir a)) new) \<and>
   (\<forall>k. k \<noteq> ''PKG_CONFIG_PATH'' \<longrightarrow> environ (snd (run_script os a s)) k = environ s k)"
  using env_discipline_main[of os a] env_frame_main[of os a]
  by (simp add: run_script_state steps_def trace_ext_def env_frame_def)

theorem C8_witness:
  "filter is_SetEnv (trace (snd (run_script os_ok a0 s1))) =
     [SetEnv ''PKG_CONFIG_PATH'' ''/out/SIMULATOR64/lib/pkgconfig'',
      SetEnv ''PKG_CONFIG_PATH'' ''/out/OS64/lib/pkgconfig'',
      SetEnv ''PKG_CONFIG_PATH'' ''/out/SIMULATOR64/lib/pkgconfig'',
      SetEnv ''PKG_CONFIG_PATH'' ''/out/OS64/lib/pkgconfig''] \<and>
   env_discipline ''/out'' (trace (snd (run_script os_ok a0 s1))) \<and>
   environ (snd (run_script os_ok a0 s1)) ''HOME'' = environ s1 ''HOME'' \<and>
   environ (snd (run_script os_ok a0 s1)) ''PKG_CONFIG_PATH'' = Some ''/out/OS64/lib/pkgconfig''"
  using C8_only_pkg_config_path [of os_ok a0 s1]
  by (simp add: script_eval generate_for_def is_generate_def)

subsection \<open>Failures and the exit status\<close>

lemma priv_build_raises_Exception:
  "raises_only is_Exception (priv_build b os out_dir0 root_dir0 lib_name extra)"
  unfolding priv_build_def build_platform_def Let_def
  by (intro raises_only_bind raises_only_for_each raises_only_print_out raises_only_set_environ
        raises_only_makedirs raises_only_execute) auto

lemma build_failure_banner:
  assumes "fst (priv_build b os out_dir0 root_dir0 lib_name
                  (case extra of None \<Rightarrow> [] | Some fl \<Rightarrow> fl) s) = Inl e"
  shows "fst (build b os out_dir0 root_dir0 lib_name extra s) = Inl (SystemExit 1) \<and>
         stderr (snd (build b os out_dir0 root_dir0 lib_name extra s)) =
           stderr (snd (priv_build b os out_dir0 root_dir0 lib_name
                          (case extra of None \<Rightarrow> [] | Some fl \<Rightarrow> fl) s)) @ banner e"
proof -
  have "is_Exception e"
    using assms priv_build_raises_Exception[of b os out_dir0 root_dir0 lib_name]
    unfolding raises_only_def by blast
  with assms show ?thesis
    by (auto simp: build_def Let_def split: prod.splits sum.splits)
qed

lemma build_raises_SystemExit:
  "raises_only (\<lambda>e. e = SystemExit 1) (build b os out_dir0 root_dir0 lib_name extra)"
  unfolding raises_only_def
proof (intro allI impI)
  fix s e
  assume a: "fst (build b os out_dir0 root_dir0 lib_name extra s) = Inl e"
  let ?p = "priv_build b os out_dir0 root_dir0 lib_name (case extra of None \<Rightarrow> [] | Some fl \<Rightarrow> fl) s"
  show "e = SystemExit 1"
  proof (cases "fst ?p")
    case (Inl e')
    from build_failure_banner[OF Inl] a show ?thesis by simp
  next
    case (Inr u)
    with a show ?thesis by (auto simp: build_def Let_def split: prod.splits sum.splits)
  qed
qed

lemma main_raises:
  "raises_only (\<lambda>e. e = SystemExit 1 \<or> is_Exception e) (main os a)"
  unfolding main_def Let_def
  by (intro raises_only_bind raises_only_weaken[OF build_raises_SystemExit]
        raises_only_weaken[OF merge_libs_raises_Exception]) auto

lemma main_never_returns: "\<exists>e. fst (main os a s) = Inl e"
  by (simp add: main_def Let_def bind_fst_cases merge_libs_never_returns split: sum.splits)

text \<open>The exit status of the program is 1 in every run: a failing build ends in
  \<open>sys.exit(1)\<close>, and the merge routine always raises.\<close>

lemma run_script_exit_status: "fst (run_script os a s) = 1"
proof -
  obtain e where e: "fst (main os a s) = Inl e" using main_never_returns by blast
  with main_raises[of os a] have "e = SystemExit 1 \<or> is_Exception e"
    unfolding raises_only_def by blast
  with e show ?thesis
    by (cases "main os a s"; cases e) (auto simp: run_script_def)
qed

text \<open>A failure in the build step: the banner (border, message, border, stack trace) is
  written.\<close>

lemma build_step_failure_example:
  "fst (run_script os_all_fail a0 s0) = 1 \<and>
   filter (\<lambda>i. \<not> is_Executing i) (stderr (snd (run_script os_all_fail a0 s0))) =
     banner (CalledProcessError 1
       (get_cmake_xcode_generate_command b0 os_all_fail ''SIMULATOR64'' ''/out/SIMULATOR64''
          ''/repo/jansson'' JANSSON_EXTRA_CMAKE_FLAGS))"
  by (simp add: script_eval)

text \<open>
  Claim C2. A non-zero exit status of an external command is to end the process with
  status 1 and a bordered error banner with the stack trace on the diagnostic stream, in
  the merge step as in the build step. In the merge step the status is 1 and the stack
  trace is written, but no banner: \<open>merge_libs\<close> is called outside the handler that
  \<open>build\<close> has. Here \<open>libtool\<close> exits with status 1; apart from the lines of \<open>execute\<close>,
  the diagnostic stream holds the text of the merge step and the stack trace only.
\<close>

theorem C2_merge_failure_has_no_banner:
  "fst (run_script os_libtool_fails a0 s0) = 1 \<and>
   filter (\<lambda>i. \<not> is_Executing i) (stderr (snd (run_script os_libtool_fails a0 s0))) =
     [Text (''Merging libraries:'' @ [CHR 0x0A, CHR 0x09]),
      Traceback (CalledProcessError 1
        [''libtool'', ''-static'', ''-o'', ''/out/intermediate/avro_SIMULATOR64.a''])]"
  by (simp add: script_eval)

end
